theory Spec2Isabelle
  imports Complex_Main
begin

section \<open>Donation matching and status timeline of Alagad Depot\<close>

text \<open>
  A shallow embedding of the matching functions of the API module
  (\<^verbatim>\<open>findMatchesForRecipient\<close>, \<^verbatim>\<open>findRecipientsForDonation\<close>,
  \<^verbatim>\<open>calculateDistance\<close>, \<^verbatim>\<open>fetchDonationById\<close>), of the scraper's lookup
  (\<^verbatim>\<open>scrapeDonationById\<close>) and of the tracker's \<^verbatim>\<open>generateStatusTimeline\<close>.

  Conventions of the embedding:
  \<^item> a JavaScript number that is computed by trigonometry or division is a \<open>real\<close>
    (the rounding of IEEE doubles is not modelled), except in \<open>calculateDistance_double\<close>,
    which follows the distance function in the arithmetic of doubles; a number that is
    always integral (a score, a time value in milliseconds) is an \<open>int\<close>;
  \<^item> an optional field is an \<open>option\<close>; strings, also those of the union types
    (\<^verbatim>\<open>status\<close>, \<^verbatim>\<open>urgency\<close>), are \<open>string\<close>s, as they are at run time;
  \<^item> a \<^verbatim>\<open>Date\<close> is its time value, \<open>int option\<close>, with \<open>None\<close> for an invalid date
    (time value NaN). What the platform's date parser makes of a string is the parameter
    \<open>parse\<close>, what \<^verbatim>\<open>toLocaleDateString\<close> prints for a time value is the parameter
    \<open>fmt\<close>;
  \<^item> each call of \<^verbatim>\<open>Date.now()\<close> is a reading of the parameter \<open>clock\<close>, a function
    from the number of the reading to the time read;
  \<^item> promises are their results.
\<close>

subsection \<open>Data\<close>

text \<open>\<^verbatim>\<open>ScrapedDonation\<close> (alias \<^verbatim>\<open>DonationData\<close>): the fields the modelled functions
  read. The coordinates are not in the interface but are read by the matching code
  (user donations carry them); the other fields are passed through.\<close>

record donation =
  id_str :: string
  title :: string
  category :: string
  organization :: string
  date :: string
  status :: string
  latitude :: "real option"
  longitude :: "real option"

text \<open>\<^verbatim>\<open>UserNeedsPreferences\<close>; \<open>location\<close> is the pair (latitude, longitude).\<close>

record UserNeedsPreferences =
  userId :: string
  categories :: "string list"
  locationScope :: string
  location :: "(real \<times> real) option"
  urgency :: "string option"
  maxDistance :: "real option"

record MatchResult =
  donationId :: string
  recipientId :: string
  score :: int
  matchReason :: "string list"

subsection \<open>Numbers and strings of the platform\<close>

text \<open>\<^verbatim>\<open>Math.round\<close>: the nearest integer, a tie going up.\<close>

definition Math_round :: "real \<Rightarrow> int" where
  "Math_round x = \<lfloor>x + 1 / 2\<rfloor>"

text \<open>\<^verbatim>\<open>Math.atan2(y, x)\<close> on reals (signed zeros are not modelled).\<close>

definition Math_atan2 :: "real \<Rightarrow> real \<Rightarrow> real" where
  "Math_atan2 y x =
     (if 0 < x then arctan (y / x)
      else if x < 0 then (if 0 \<le> y then arctan (y / x) + pi else arctan (y / x) - pi)
      else if 0 < y then pi / 2
      else if y < 0 then - (pi / 2)
      else 0)"

text \<open>Truthiness of an optional number: \<^verbatim>\<open>undefined\<close> and \<^verbatim>\<open>0\<close> are falsy.\<close>

definition truthy :: "real option \<Rightarrow> bool" where
  "truthy v = (case v of None \<Rightarrow> False | Some x \<Rightarrow> x \<noteq> 0)"

text \<open>What a template literal prints for an integral number: its decimal digits, behind a
  minus sign when it is negative. The digits are collected from the last one.\<close>

definition digitOf :: "nat \<Rightarrow> char" where
  "digitOf k = ''0123456789'' ! k"

function decimalOnto :: "nat \<Rightarrow> string \<Rightarrow> string" where
  "decimalOnto n rest =
     (if n < 10 then digitOf n # rest else decimalOnto (n div 10) (digitOf (n mod 10) # rest))"
  by pat_completeness auto
termination
  by (relation "measure fst") auto

definition numberToString :: "int \<Rightarrow> string" where
  "numberToString i =
     (if 0 \<le> i then decimalOnto (nat i) [] else CHR ''-'' # decimalOnto (nat (- i)) [])"

subsection \<open>Distance\<close>

text \<open>\<^verbatim>\<open>calculateDistance\<close> over the reals; the scoring rules use it.\<close>

definition deg2rad :: "real \<Rightarrow> real" where
  "deg2rad deg = deg * (pi / 180)"

definition haversine_a :: "real \<Rightarrow> real \<Rightarrow> real \<Rightarrow> real \<Rightarrow> real" where
  "haversine_a lat1 lon1 lat2 lon2 =
     (let dLat = deg2rad (lat2 - lat1);
          dLon = deg2rad (lon2 - lon1)
      in sin (dLat / 2) * sin (dLat / 2) +
         cos (deg2rad lat1) * cos (deg2rad lat2) * sin (dLon / 2) * sin (dLon / 2))"

definition calculateDistance :: "real \<Rightarrow> real \<Rightarrow> real \<Rightarrow> real \<Rightarrow> real" where
  "calculateDistance lat1 lon1 lat2 lon2 =
     (let R = 6371;
          a = haversine_a lat1 lon1 lat2 lon2;
          c = 2 * Math_atan2 (sqrt a) (sqrt (1 - a));
          distance = R * c
      in distance)"

subsection \<open>Distance in double arithmetic\<close>

text \<open>The same function as the code computes it. A number is the real that a finite double
  denotes, or \<open>None\<close> for NaN; every arithmetic operation rounds its exact result to the
  nearest double, a tie going to the even significand (53 bits). Infinities, signed zeros,
  overflow and subnormal numbers are not modelled: the distance function stays far from
  them.\<close>

definition roundTiesToEven :: "real \<Rightarrow> int" where
  "roundTiesToEven x =
     (let n = \<lfloor>x\<rfloor>; r = x - real_of_int n
      in if r < 1 / 2 then n else if 1 / 2 < r then n + 1 else if even n then n else n + 1)"

definition toDouble :: "real \<Rightarrow> real" where
  "toDouble x =
     (if x = 0 then 0
      else (let e = \<lfloor>log 2 \<bar>x\<bar>\<rfloor> - 52
            in real_of_int (roundTiesToEven (x / 2 powi e)) * 2 powi e))"

text \<open>An operator of the language on numbers: NaN in, NaN out.\<close>

type_synonym number = "real option"

definition arith :: "(real \<Rightarrow> real \<Rightarrow> real) \<Rightarrow> number \<Rightarrow> number \<Rightarrow> number" where
  "arith f x y = (case (x, y) of (Some a, Some b) \<Rightarrow> Some (toDouble (f a b)) | _ \<Rightarrow> None)"

text \<open>\<^verbatim>\<open>Math.sqrt\<close> is NaN below 0 and correctly rounded elsewhere.\<close>

definition Math_sqrt :: "number \<Rightarrow> number" where
  "Math_sqrt x =
     (case x of None \<Rightarrow> None | Some a \<Rightarrow> if a < 0 then None else Some (toDouble (sqrt a)))"

text \<open>\<^verbatim>\<open>Math.sin\<close>, \<^verbatim>\<open>Math.cos\<close> and \<^verbatim>\<open>Math.atan2\<close> are the platform's: what they
  return for finite doubles is a parameter.\<close>

record libm =
  sinOf :: "real \<Rightarrow> real"
  cosOf :: "real \<Rightarrow> real"
  atan2Of :: "real \<Rightarrow> real \<Rightarrow> real"

definition Math_sin :: "libm \<Rightarrow> number \<Rightarrow> number" where
  "Math_sin lm x = map_option (sinOf lm) x"

definition Math_cos :: "libm \<Rightarrow> number \<Rightarrow> number" where
  "Math_cos lm x = map_option (cosOf lm) x"

definition Math_atan2_double :: "libm \<Rightarrow> number \<Rightarrow> number \<Rightarrow> number" where
  "Math_atan2_double lm y x =
     (case (y, x) of (Some a, Some b) \<Rightarrow> Some (atan2Of lm a b) | _ \<Rightarrow> None)"

text \<open>\<^verbatim>\<open>Math.PI\<close>, the double nearest to \<open>pi\<close>.\<close>

definition Math_PI :: real where
  "Math_PI = 884279719003555 / 2 ^ 48"

definition deg2rad_double :: "number \<Rightarrow> number" where
  "deg2rad_double deg = arith (*) deg (arith (/) (Some Math_PI) (Some 180))"

definition calculateDistance_double ::
  "libm \<Rightarrow> number \<Rightarrow> number \<Rightarrow> number \<Rightarrow> number \<Rightarrow> number" where
  "calculateDistance_double lm lat1 lon1 lat2 lon2 =
     (let R = Some 6371;
          dLat = deg2rad_double (arith (-) lat2 lat1);
          dLon = deg2rad_double (arith (-) lon2 lon1);
          a = arith (+)
                (arith (*) (Math_sin lm (arith (/) dLat (Some 2)))
                           (Math_sin lm (arith (/) dLat (Some 2))))
                (arith (*)
                   (arith (*)
                      (arith (*) (Math_cos lm (deg2rad_double lat1))
                                 (Math_cos lm (deg2rad_double lat2)))
                      (Math_sin lm (arith (/) dLon (Some 2))))
                   (Math_sin lm (arith (/) dLon (Some 2))));
          c = arith (*) (Some 2)
                (Math_atan2_double lm (Math_sqrt a) (Math_sqrt (arith (-) (Some 1) a)));
          distance = arith (*) R c
      in distance)"

text \<open>The operator \<^verbatim>\<open>==\<close> on numbers: NaN equals nothing.\<close>

definition numbersEqual :: "number \<Rightarrow> number \<Rightarrow> bool" where
  "numbersEqual x y = (case (x, y) of (Some a, Some b) \<Rightarrow> a = b | _ \<Rightarrow> False)"

subsection \<open>The scoring rules\<close>

text \<open>The callbacks keep a running \<^verbatim>\<open>score\<close> and the list \<^verbatim>\<open>matchReasons\<close>; each rule
  is a step on that pair.\<close>

type_synonym tally = "int \<times> string list"

definition categoryRule :: "string list \<Rightarrow> donation \<Rightarrow> tally \<Rightarrow> tally" where
  "categoryRule cats d = (\<lambda>(sc, matchReasons).
     if category d \<in> set cats
     then (sc + 30, matchReasons @ [''Category match: '' @ category d])
     else (sc, matchReasons))"

definition urgencyRule :: "string option \<Rightarrow> donation \<Rightarrow> tally \<Rightarrow> tally" where
  "urgencyRule urg d = (\<lambda>(sc, matchReasons).
     if urg = Some ''high'' \<and> status d = ''urgent''
     then (sc + 25, matchReasons @ [''Urgent donation matches high urgency need''])
     else (sc, matchReasons))"

definition effectiveMaxDistance :: "real option \<Rightarrow> real" where
  "effectiveMaxDistance m = (if truthy m then (case m of Some x \<Rightarrow> x | None \<Rightarrow> 50) else 50)"

text \<open>The guard \<^verbatim>\<open>recipientNeeds.location && donation.latitude && donation.longitude\<close>
  holds when the recipient has a location and both coordinates of the donation are present
  and not 0.\<close>

definition locationRule ::
  "(real \<times> real) option \<Rightarrow> real option \<Rightarrow> donation \<Rightarrow> tally \<Rightarrow> tally" where
  "locationRule loc maxD d = (\<lambda>(sc, matchReasons).
     case loc of
       None \<Rightarrow> (sc, matchReasons)
     | Some (rlat, rlon) \<Rightarrow>
        (case (latitude d, longitude d) of
           (Some dlat, Some dlon) \<Rightarrow>
             if dlat \<noteq> 0 \<and> dlon \<noteq> 0 then
               (let distance = calculateDistance rlat rlon dlat dlon;
                    maxDistance = effectiveMaxDistance maxD
                in if distance \<le> maxDistance
                   then (sc + Math_round (25 * (1 - distance / maxDistance)),
                         matchReasons @
                           [''Location proximity: '' @ numberToString (Math_round distance) @
                            ''km away''])
                   else (sc, matchReasons))
             else (sc, matchReasons)
         | _ \<Rightarrow> (sc, matchReasons)))"

definition daysSince :: "int \<Rightarrow> int \<Rightarrow> real" where
  "daysSince now t = real_of_int (now - t) / (1000 * 60 * 60 * 24)"

definition recencyRule :: "(string \<Rightarrow> int option) \<Rightarrow> int \<Rightarrow> donation \<Rightarrow> tally \<Rightarrow> tally" where
  "recencyRule parse now d = (\<lambda>(sc, matchReasons).
     case parse (date d) of
       None \<Rightarrow> (sc, matchReasons)
     | Some t \<Rightarrow>
        (let daysSinceDonation = daysSince now t
         in if daysSinceDonation \<le> 7
            then (sc + Math_round (20 * (1 - daysSinceDonation / 7)),
                  matchReasons @ [''Recently listed donation''])
            else (sc, matchReasons)))"

text \<open>The callback of \<^verbatim>\<open>map\<close> in \<^verbatim>\<open>findMatchesForRecipient\<close>.\<close>

definition matchDonation ::
  "(string \<Rightarrow> int option) \<Rightarrow> UserNeedsPreferences \<Rightarrow> int \<Rightarrow> donation \<Rightarrow> MatchResult" where
  "matchDonation parse recipientNeeds now d =
     (let t0 = (0, []);
          t1 = categoryRule (categories recipientNeeds) d t0;
          t2 = urgencyRule (urgency recipientNeeds) d t1;
          t3 = locationRule (location recipientNeeds) (maxDistance recipientNeeds) d t2;
          t4 = recencyRule parse now d t3
      in \<lparr>donationId = id_str d, recipientId = userId recipientNeeds,
          score = fst t4, matchReason = snd t4\<rparr>)"

text \<open>The callback of \<^verbatim>\<open>map\<close> in \<^verbatim>\<open>findRecipientsForDonation\<close>: no recency step.\<close>

definition matchRecipient :: "donation \<Rightarrow> UserNeedsPreferences \<Rightarrow> MatchResult" where
  "matchRecipient d recipient =
     (let t0 = (0, []);
          t1 = categoryRule (categories recipient) d t0;
          t2 = urgencyRule (urgency recipient) d t1;
          t3 = locationRule (location recipient) (maxDistance recipient) d t2
      in \<lparr>donationId = id_str d, recipientId = userId recipient,
          score = fst t3, matchReason = snd t3\<rparr>)"

subsection \<open>Sorting\<close>

text \<open>\<^verbatim>\<open>Array.prototype.sort\<close> with a comparator: the language standard asks for a
  stable sort, modelled as insertion from the right, an element going before the first
  one it does not come after.\<close>

fun insert_by :: "('a \<Rightarrow> 'a \<Rightarrow> int) \<Rightarrow> 'a \<Rightarrow> 'a list \<Rightarrow> 'a list" where
  "insert_by cmp x [] = [x]"
| "insert_by cmp x (y # ys) = (if cmp x y \<le> 0 then x # y # ys else y # insert_by cmp x ys)"

definition Array_sort :: "('a \<Rightarrow> 'a \<Rightarrow> int) \<Rightarrow> 'a list \<Rightarrow> 'a list" where
  "Array_sort cmp xs = foldr (insert_by cmp) xs []"

definition byScoreDesc :: "MatchResult \<Rightarrow> MatchResult \<Rightarrow> int" where
  "byScoreDesc a b = score b - score a"

definition rank :: "MatchResult list \<Rightarrow> MatchResult list" where
  "rank ms = Array_sort byScoreDesc (filter (\<lambda>m. score m > 30) ms)"

subsection \<open>Matching for a recipient\<close>

text \<open>The donations are the list \<^verbatim>\<open>availableDonations\<close> that
  \<^verbatim>\<open>fetchDonationsByLocationScope\<close> has returned; the callback reads the clock once for
  each of them.\<close>

definition scoreDonations ::
  "(string \<Rightarrow> int option) \<Rightarrow> (nat \<Rightarrow> int) \<Rightarrow> UserNeedsPreferences \<Rightarrow> donation list \<Rightarrow>
   MatchResult list" where
  "scoreDonations parse clock recipientNeeds availableDonations =
     map (\<lambda>(i, d). matchDonation parse recipientNeeds (clock i) d)
       (enumerate 0 availableDonations)"

definition findMatchesForRecipient ::
  "(string \<Rightarrow> int option) \<Rightarrow> (nat \<Rightarrow> int) \<Rightarrow> UserNeedsPreferences \<Rightarrow> donation list \<Rightarrow>
   MatchResult list" where
  "findMatchesForRecipient parse clock recipientNeeds availableDonations =
     rank (scoreDonations parse clock recipientNeeds availableDonations)"

subsection \<open>The donation store\<close>

text \<open>The scraper's cache and the browser's local storage. \<open>userDonations\<close> is what
  \<^verbatim>\<open>JSON.parse(localStorage.getItem("userDonations") || "[]")\<close> gives: \<open>None\<close> when the
  stored text does not parse (the exception is caught by the caller). \<open>reads\<close> counts the
  readings of the clock.\<close>

record scraped_cache =
  data :: "donation list"
  timestamp :: int

record world =
  scrapedDataCache :: "scraped_cache option"
  userDonations :: "donation list option"
  reads :: nat

definition mockFilipinoDonations :: "donation list" where
  "mockFilipinoDonations =
    [\<lparr>id_str = ''PH-DON-001'', title = ''Typhoon Relief for Bicol Region'',
      category = ''disaster'', organization = ''Philippine Red Cross'',
      date = ''Aug 15, 2023'', status = ''active'', latitude = None, longitude = None\<rparr>,
     \<lparr>id_str = ''PH-DON-002'', title = ''School Supplies for Children in Mindanao'',
      category = ''education'', organization = ''Department of Education'',
      date = ''Jun 5, 2023'', status = ''active'', latitude = None, longitude = None\<rparr>,
     \<lparr>id_str = ''PH-DON-003'', title = ''Medical Mission in Palawan'',
      category = ''healthcare'', organization = ''Philippine Medical Association'',
      date = ''Jul 20, 2023'', status = ''urgent'', latitude = None, longitude = None\<rparr>,
     \<lparr>id_str = ''PH-DON-004'', title = ''Food Bank for Manila's Urban Poor'',
      category = ''food'', organization = ''Caritas Manila'',
      date = ''Aug 2, 2023'', status = ''active'', latitude = None, longitude = None\<rparr>,
     \<lparr>id_str = ''PH-DON-005'', title = ''Rebuilding Homes in Marawi'',
      category = ''housing'', organization = ''Habitat for Humanity Philippines'',
      date = ''May 15, 2023'', status = ''active'', latitude = None, longitude = None\<rparr>,
     \<lparr>id_str = ''PH-DON-006'', title = ''Emergency Response for Taal Volcano Evacuees'',
      category = ''disaster'', organization = ''Department of Social Welfare and Development'',
      date = ''Aug 10, 2023'', status = ''urgent'', latitude = None, longitude = None\<rparr>]"

definition Date_now :: "(nat \<Rightarrow> int) \<Rightarrow> world \<Rightarrow> int \<times> world" where
  "Date_now clock w = (clock (reads w), w\<lparr>reads := Suc (reads w)\<rparr>)"

definition isCacheValid :: "(nat \<Rightarrow> int) \<Rightarrow> world \<Rightarrow> bool \<times> world" where
  "isCacheValid clock w =
     (case scrapedDataCache w of
        None \<Rightarrow> (False, w)
      | Some c \<Rightarrow>
         (let (now, w1) = Date_now clock w;
              cacheAge = now - timestamp c;
              oneDayInMs = 24 * 60 * 60 * 1000
          in (cacheAge < oneDayInMs, w1)))"

definition scrapeRealDonations :: "donation list" where
  "scrapeRealDonations = mockFilipinoDonations"

definition scrapeDonations :: "(nat \<Rightarrow> int) \<Rightarrow> world \<Rightarrow> donation list \<times> world" where
  "scrapeDonations clock w =
     (let (valid, w1) = isCacheValid clock w
      in case (valid, scrapedDataCache w1) of
           (True, Some c) \<Rightarrow> (data c, w1)
         | _ \<Rightarrow>
            (let freshData = scrapeRealDonations;
                 (now, w2) = Date_now clock w1
             in (freshData,
                 w2\<lparr>scrapedDataCache := Some \<lparr>data = freshData, timestamp = now\<rparr>\<rparr>)))"

definition findById :: "string \<Rightarrow> donation list \<Rightarrow> donation option" where
  "findById i ds = find (\<lambda>d. id_str d = i) ds"

definition scrapeDonationById ::
  "(nat \<Rightarrow> int) \<Rightarrow> world \<Rightarrow> string \<Rightarrow> donation option \<times> world" where
  "scrapeDonationById clock w i =
     (let (valid, w1) = isCacheValid clock w;
          cached = (case (valid, scrapedDataCache w1) of
                      (True, Some c) \<Rightarrow> findById i (data c)
                    | _ \<Rightarrow> None)
      in case cached of
           Some donation \<Rightarrow> (Some donation, w1)
         | None \<Rightarrow>
            (let (donations, w2) = scrapeDonations clock w1
             in (findById i donations, w2)))"

definition fetchDonationById ::
  "(nat \<Rightarrow> int) \<Rightarrow> world \<Rightarrow> string \<Rightarrow> donation option \<times> world" where
  "fetchDonationById clock w i =
     (let (donation, w1) = scrapeDonationById clock w i
      in case donation of
           Some d \<Rightarrow> (Some d, w1)
         | None \<Rightarrow>
            (case userDonations w1 of
               None \<Rightarrow> (None, w1)
             | Some uds \<Rightarrow> (findById i uds, w1)))"

subsection \<open>Matching for a donation\<close>

definition findRecipientsForDonation ::
  "(nat \<Rightarrow> int) \<Rightarrow> world \<Rightarrow> string \<Rightarrow> UserNeedsPreferences list \<Rightarrow>
   MatchResult list \<times> world" where
  "findRecipientsForDonation clock w donationId' userPreferences =
     (let (donation, w1) = fetchDonationById clock w donationId'
      in case donation of
           None \<Rightarrow> ([], w1)
         | Some d \<Rightarrow> (rank (map (matchRecipient d) userPreferences), w1))"

subsection \<open>The status timeline\<close>

text \<open>A status item: \<^verbatim>\<open>id\<close>, \<^verbatim>\<open>status\<close>, \<^verbatim>\<open>title\<close>, \<^verbatim>\<open>description\<close>, \<^verbatim>\<open>timestamp\<close>,
  \<^verbatim>\<open>user\<close>.\<close>

datatype statusItem =
  StatusItem (item_id: string) (item_status: string) (item_title: string)
    (item_description: string) (item_timestamp: string) (item_user: string)

text \<open>\<^verbatim>\<open>setHours(getHours() + h)\<close> and \<^verbatim>\<open>setDate(getDate() + n)\<close> move the time value by
  whole hours and days (a local time zone of constant offset); an invalid date stays
  invalid.\<close>

definition addHours :: "int \<Rightarrow> int option \<Rightarrow> int option" where
  "addHours h dt = map_option (\<lambda>t. t + h * (60 * 60 * 1000)) dt"

definition addDays :: "int \<Rightarrow> int option \<Rightarrow> int option" where
  "addDays n dt = map_option (\<lambda>t. t + n * (24 * 60 * 60 * 1000)) dt"

text \<open>\<^verbatim>\<open>dt <= now\<close> on dates: false for an invalid date.\<close>

definition notAfter :: "int option \<Rightarrow> int \<Rightarrow> bool" where
  "notAfter dt now = (case dt of None \<Rightarrow> False | Some t \<Rightarrow> t \<le> now)"

definition toLocaleDateString :: "(int \<Rightarrow> string) \<Rightarrow> int option \<Rightarrow> string" where
  "toLocaleDateString fmt dt = (case dt of None \<Rightarrow> ''Invalid Date'' | Some t \<Rightarrow> fmt t)"

definition generateStatusTimeline ::
  "(int \<Rightarrow> string) \<Rightarrow> (string \<Rightarrow> int option) \<Rightarrow> int \<Rightarrow> donation \<Rightarrow> statusItem list" where
  "generateStatusTimeline fmt parse now donation =
     (let baseDate = parse (date donation);
          statusItems =
            [StatusItem ''1'' ''active'' ''Donation Listed''
               (title donation @ '' has been listed for donation.'')
               (date donation) (organization donation)];
          matchedDate = addHours 12 baseDate;
          statusItems =
            (if notAfter matchedDate now \<or> status donation = ''urgent'' \<or>
                status donation = ''completed''
             then statusItems @
               [StatusItem ''2'' ''matched'' ''Potential Recipients Found''
                  (''Potential recipients for '' @ title donation @ '' have been identified.'')
                  (toLocaleDateString fmt matchedDate) ''System'']
             else statusItems);
          statusItems =
            (if status donation = ''urgent'' then
               (let urgentDate = addHours 24 baseDate;
                    statusItems = statusItems @
                      [StatusItem ''3'' ''urgent'' ''Urgent Need Identified''
                         (''This donation has been marked as urgent by '' @
                            organization donation @ ''.'')
                         (toLocaleDateString fmt urgentDate) (organization donation)];
                    arrangedDate = addHours 6 urgentDate
                in if notAfter arrangedDate now \<or> status donation = ''completed''
                   then statusItems @
                     [StatusItem ''4'' ''arranged'' ''Pickup/Delivery Arranged''
                        (''Logistics for '' @ title donation @ '' have been arranged.'')
                        (toLocaleDateString fmt arrangedDate) ''Logistics Team'']
                   else statusItems)
             else statusItems);
          statusItems =
            (if status donation = ''completed'' then
               (let completedDate = addDays 7 baseDate
                in statusItems @
                  [StatusItem ''5'' ''completed'' ''Donation Completed''
                     (''The donation to '' @ organization donation @
                        '' has been successfully completed.'')
                     (toLocaleDateString fmt completedDate) (organization donation)])
             else statusItems)
      in statusItems)"

subsection \<open>Vocabulary of the properties\<close>

text \<open>A list of results in non-increasing order of score.\<close>

definition descending :: "MatchResult list \<Rightarrow> bool" where
  "descending ms = sorted_wrt (\<lambda>a b. score b \<le> score a) ms"

text \<open>The conditions under which the four rules apply, as the callbacks test them, and
  what the location and the recency rule add to the score.\<close>

definition categoryMatches :: "string list \<Rightarrow> donation \<Rightarrow> bool" where
  "categoryMatches cats d = (category d \<in> set cats)"

definition urgencyAligned :: "string option \<Rightarrow> donation \<Rightarrow> bool" where
  "urgencyAligned urg d = (urg = Some ''high'' \<and> status d = ''urgent'')"

definition distanceTo :: "(real \<times> real) option \<Rightarrow> donation \<Rightarrow> real" where
  "distanceTo loc d =
     (case (loc, latitude d, longitude d) of
        (Some (rlat, rlon), Some dlat, Some dlon) \<Rightarrow> calculateDistance rlat rlon dlat dlon
      | _ \<Rightarrow> 0)"

definition withinRadius :: "(real \<times> real) option \<Rightarrow> real option \<Rightarrow> donation \<Rightarrow> bool" where
  "withinRadius loc maxD d =
     (loc \<noteq> None \<and> truthy (latitude d) \<and> truthy (longitude d) \<and>
      distanceTo loc d \<le> effectiveMaxDistance maxD)"


definition locationScore :: "(real \<times> real) option \<Rightarrow> real option \<Rightarrow> donation \<Rightarrow> int" where
  "locationScore loc maxD d = fst (locationRule loc maxD d (0, []))"

definition recencyScore :: "(string \<Rightarrow> int option) \<Rightarrow> int \<Rightarrow> donation \<Rightarrow> int" where
  "recencyScore parse now d = fst (recencyRule parse now d (0, []))"

text \<open>The donations an id can resolve to: the scraped ones, those of the cache, and those
  of local storage when it can be read.\<close>

definition knownDonations :: "world \<Rightarrow> donation list" where
  "knownDonations w =
     scrapeRealDonations @
     (case scrapedDataCache w of None \<Rightarrow> [] | Some c \<Rightarrow> data c) @
     (case userDonations w of None \<Rightarrow> [] | Some uds \<Rightarrow> uds)"

text \<open>The reasons a result is expected to carry: one for each rule whose condition holds,
  in the order of the rules. \<open>recent\<close> says whether the recency rule applies; the
  direction from a donation to recipients has no such rule.\<close>

definition reasonsByCondition :: "UserNeedsPreferences \<Rightarrow> donation \<Rightarrow> bool \<Rightarrow> string list" where
  "reasonsByCondition needs d recent =
     (if categoryMatches (categories needs) d
      then [''Category match: '' @ category d] else []) @
     (if urgencyAligned (urgency needs) d
      then [''Urgent donation matches high urgency need''] else []) @
     (if withinRadius (location needs) (maxDistance needs) d
      then [''Location proximity: '' @
            numberToString (Math_round (distanceTo (location needs) d)) @ ''km away'']
      else []) @
     (if recent then [''Recently listed donation''] else [])"

subsection \<open>Example inputs\<close>

definition needs_disaster_high :: UserNeedsPreferences where
  "needs_disaster_high =
     \<lparr>userId = ''u1'', categories = [''disaster''], locationScope = ''worldwide'',
      location = None, urgency = Some ''high'', maxDistance = None\<rparr>"

definition needs_located :: UserNeedsPreferences where
  "needs_located =
     \<lparr>userId = ''u2'', categories = [''disaster''], locationScope = ''community'',
      location = Some (0, 121), urgency = None, maxDistance = Some 50\<rparr>"

definition sample :: "string \<Rightarrow> string \<Rightarrow> string \<Rightarrow> donation" where
  "sample i c s =
     \<lparr>id_str = i, title = ''Relief goods'', category = c, organization = ''Barangay Hall'',
      date = ''11/2/2026'', status = s, latitude = None, longitude = None\<rparr>"

definition sample_donations :: "donation list" where
  "sample_donations =
     [sample ''A'' ''disaster'' ''urgent'', sample ''B'' ''food'' ''active'',
      sample ''C'' ''disaster'' ''active'', sample ''D'' ''disaster'' ''urgent'']"

text \<open>A parser that reads every string as the time \<open>t\<close>, a clock that stands at \<open>t\<close>,
  and a browser with nothing cached and nothing stored.\<close>

definition parse_at :: "int \<Rightarrow> string \<Rightarrow> int option" where
  "parse_at t s = Some t"

definition clock_at :: "int \<Rightarrow> nat \<Rightarrow> int" where
  "clock_at t k = t"

definition fresh_world :: world where
  "fresh_world = \<lparr>scrapedDataCache = None, userDonations = Some [], reads = 0\<rparr>"

text \<open>A parser that knows the one date \<^verbatim>\<open>2023-01-01\<close> (midnight UTC, as a date-only ISO
  string is read), a completed donation of that date, and a donation on the equator.\<close>

definition parse_iso :: "string \<Rightarrow> int option" where
  "parse_iso s = (if s = ''2023-01-01'' then Some 1672531200000 else None)"

definition donation_completed :: donation where
  "donation_completed = (sample ''T'' ''food'' ''completed'')\<lparr>date := ''2023-01-01''\<rparr>"

definition donation_equator :: donation where
  "donation_equator =
     (sample ''Z'' ''disaster'' ''active'')\<lparr>latitude := Some 0, longitude := Some 121\<rparr>"

text \<open>A recipient and a donation at the same place, off the equator and the prime
  meridian, and a browser whose local storage holds that donation.\<close>

definition needs_nearby :: UserNeedsPreferences where
  "needs_nearby =
     \<lparr>userId = ''u4'', categories = [''disaster''], locationScope = ''community'',
      location = Some (10, 121), urgency = Some ''high'', maxDistance = None\<rparr>"

definition donation_nearby :: donation where
  "donation_nearby =
     (sample ''N'' ''disaster'' ''urgent'')\<lparr>latitude := Some 10, longitude := Some 121\<rparr>"

definition world_with_nearby :: world where
  "world_with_nearby =
     \<lparr>scrapedDataCache = None, userDonations = Some [donation_nearby], reads = 0\<rparr>"

text \<open>A library that returns, at the arguments the distance of the points (-82, -180) and
  (82, 0) needs, the doubles nearest to the sine and the cosine, and rounds the exact
  function everywhere else.\<close>

definition libm_rounding :: libm where
  "libm_rounding =
     \<lparr>sinOf = (\<lambda>x. if x = 6445416618514801 / 2 ^ 52 then 4459770905381437 / 2 ^ 52
                   else if x = 884279719003555 / 2 ^ 49 then 1
                   else toDouble (sin x)),
      cosOf = (\<lambda>x. if \<bar>x\<bar> = 6445416618514801 / 2 ^ 52 then 2507119702494989 / 2 ^ 54
                   else toDouble (cos x)),
      atan2Of = (\<lambda>y x. toDouble (Math_atan2 y x))\<rparr>"

section \<open>Properties\<close>

subsection \<open>Evaluation of the examples\<close>

lemmas eval_match = findMatchesForRecipient_def scoreDonations_def rank_def Array_sort_def
  byScoreDesc_def matchDonation_def categoryRule_def urgencyRule_def locationRule_def
  recencyRule_def daysSince_def Math_round_def

lemmas eval_store = findRecipientsForDonation_def fetchDonationById_def scrapeDonationById_def
  scrapeDonations_def isCacheValid_def Date_now_def scrapeRealDonations_def
  mockFilipinoDonations_def findById_def rank_def Array_sort_def
  byScoreDesc_def matchRecipient_def categoryRule_def urgencyRule_def locationRule_def Let_def

lemmas eval_examples = needs_disaster_high_def needs_located_def sample_def sample_donations_def
  parse_at_def clock_at_def fresh_world_def parse_iso_def donation_completed_def
  donation_equator_def needs_nearby_def donation_nearby_def world_with_nearby_def

subsection \<open>The distance\<close>

lemma deg2rad_diff: "deg2rad (x - y) = - deg2rad (y - x)"
  by (simp add: deg2rad_def field_simps)

lemma haversine_a_sym: "haversine_a lat1 lon1 lat2 lon2 = haversine_a lat2 lon2 lat1 lon1"
proof -
  have 1: "sin (deg2rad (lat2 - lat1) / 2) = - sin (deg2rad (lat1 - lat2) / 2)"
    by (simp add: deg2rad_diff [of lat2 lat1])
  have 2: "sin (deg2rad (lon2 - lon1) / 2) = - sin (deg2rad (lon1 - lon2) / 2)"
    by (simp add: deg2rad_diff [of lon2 lon1])
  show ?thesis
    unfolding haversine_a_def Let_def 1 2 by simp
qed


text \<open>The argument of the square roots lies between 0 and 1, whatever the coordinates:
  with \<open>s\<close> the squared sine of half the difference in longitude, twice the argument is
  \<open>1 - (1 - s) * cos (y - x) + s * cos (x + y)\<close>.\<close>

lemma haversine_a_range:
  "0 \<le> haversine_a lat1 lon1 lat2 lon2 \<and> haversine_a lat1 lon1 lat2 lon2 \<le> 1"
proof -
  define x where "x = deg2rad lat1"
  define y where "y = deg2rad lat2"
  define s where "s = sin (deg2rad (lon2 - lon1) / 2) * sin (deg2rad (lon2 - lon1) / 2)"
  define c where "c = cos (y - x)"
  define c' where "c' = cos (x + y)"
  have dl: "deg2rad (lat2 - lat1) = y - x"
    by (simp add: deg2rad_def x_def y_def field_simps)
  have s0: "0 \<le> s" by (simp add: s_def)
  have s1: "s \<le> 1" using sin_squared_eq [of "deg2rad (lon2 - lon1) / 2"]
    by (simp add: s_def power2_eq_square)
  have cb: "- 1 \<le> c" "c \<le> 1" "- 1 \<le> c'" "c' \<le> 1" by (simp_all add: c_def c'_def)
  have tz: "2 * ((y - x) / 2) = y - x" by simp
  have "cos (y - x) = 1 - 2 * (sin ((y - x) / 2))\<^sup>2"
    using cos_double_sin [of "(y - x) / 2"] unfolding tz .
  then have h: "sin ((y - x) / 2) * sin ((y - x) / 2) = (1 - c) / 2"
    by (simp add: c_def power2_eq_square)
  have cc: "cos x * cos y = (c + c') / 2"
    using cos_times_cos [of x y] by (simp add: c_def c'_def cos_diff cos_add)
  have "haversine_a lat1 lon1 lat2 lon2 =
          sin ((y - x) / 2) * sin ((y - x) / 2) + (cos x * cos y) * s"
    unfolding haversine_a_def Let_def dl by (simp add: x_def y_def s_def mult.assoc)
  then have a: "haversine_a lat1 lon1 lat2 lon2 = (1 - c) / 2 + (c + c') / 2 * s"
    by (simp only: h cc)
  have e: "(1 - c) / 2 + (c + c') / 2 * s = (1 - (1 - s) * c + s * c') / 2"
    by (simp add: field_simps)
  have m1: "(1 - s) * c \<le> (1 - s) * 1" using s1 cb by (intro mult_left_mono) auto
  have m2: "(1 - s) * (- 1) \<le> (1 - s) * c" using s1 cb by (intro mult_left_mono) auto
  have m3: "s * c' \<le> s * 1" using s0 cb by (intro mult_left_mono) auto
  have m4: "s * (- 1) \<le> s * c'" using s0 cb by (intro mult_left_mono) auto
  show ?thesis unfolding a e using m1 m2 m3 m4 by simp
qed

lemma Math_atan2_nonneg: "0 \<le> y \<Longrightarrow> 0 \<le> Math_atan2 y x"
proof -
  assume y: "0 \<le> y"
  have "- (pi / 2) < arctan (y / x)" by (rule arctan_lbound)
  then have "0 \<le> arctan (y / x) + pi" using pi_gt_zero by linarith
  with y show ?thesis by (auto simp: Math_atan2_def)
qed

lemma calculateDistance_nonneg: "0 \<le> calculateDistance lat1 lon1 lat2 lon2"
  unfolding calculateDistance_def Let_def
  using haversine_a_range [of lat1 lon1 lat2 lon2]
  by (simp add: Math_atan2_nonneg)

lemma Math_atan2_arcsin:
  assumes "0 \<le> a" "a \<le> 1"
  shows "Math_atan2 (sqrt a) (sqrt (1 - a)) = arcsin (sqrt a)"
proof (cases "a = 1")
  case True
  then show ?thesis by (simp add: Math_atan2_def)
next
  case False
  with assms have lt: "a < 1" by simp
  then have pos: "0 < sqrt (1 - a)" by simp
  have s: "- 1 < sqrt a" "sqrt a < 1" using assms lt
    by (auto intro: less_le_trans [of _ 0] simp: real_less_lsqrt)
  have "arcsin (sqrt a) = arctan (sqrt a / sqrt (1 - (sqrt a)\<^sup>2))"
    using s by (rule arcsin_arctan)
  also have "(sqrt a)\<^sup>2 = a" using assms by simp
  finally show ?thesis using pos by (simp add: Math_atan2_def)
qed

lemma calculateDistance_sym:
  "calculateDistance lat1 lon1 lat2 lon2 = calculateDistance lat2 lon2 lat1 lon1"
  unfolding calculateDistance_def by (simp add: haversine_a_sym [of lat1 lon1 lat2 lon2])


lemma calculateDistance_arcsin:
  "calculateDistance lat1 lon1 lat2 lon2 =
     6371 * (2 * arcsin (sqrt (haversine_a lat1 lon1 lat2 lon2)))"
  unfolding calculateDistance_def Let_def
  using haversine_a_range [of lat1 lon1 lat2 lon2] by (simp add: Math_atan2_arcsin)

subsection \<open>The distance in double arithmetic\<close>

lemma floor_log2:
  assumes "2 powi n \<le> x" and "x < 2 powi (n + 1)"
  shows "\<lfloor>log 2 x\<rfloor> = n"
proof -
  have "(0::real) < 2 powi n" by (rule zero_less_power_int) simp
  with assms(1) have pos: "0 < x" by linarith
  have p: "(2::real) powr real_of_int k = 2 powi k" for k
    by (simp add: powr_real_of_int')
  have 1: "real_of_int n \<le> log 2 x"
    using assms(1) pos by (simp add: le_log_iff p)
  have 2: "log 2 x < real_of_int n + 1"
    using assms(2) pos p [of "n + 1"] by (simp add: log_less_iff)
  from 1 2 show ?thesis by (intro floor_unique) auto
qed

lemma toDouble_at:
  assumes "2 powi (e + 52) \<le> \<bar>x\<bar>" and "\<bar>x\<bar> < 2 powi (e + 53)"
  shows "toDouble x = real_of_int (roundTiesToEven (x / 2 powi e)) * 2 powi e"
proof -
  have "(0::real) < 2 powi (e + 52)" by (rule zero_less_power_int) simp
  with assms(1) have "0 < \<bar>x\<bar>" by linarith
  then have nz: "x \<noteq> 0" by auto
  have "\<lfloor>log 2 \<bar>x\<bar>\<rfloor> = e + 52"
    using assms by (intro floor_log2) (simp_all add: add.assoc)
  with nz show ?thesis by (simp add: toDouble_def Let_def)
qed

text \<open>The roundings on the way from the points (-82, -180) and (82, 0) to \<open>1 - a\<close>.\<close>

lemma rd_diff_lat: "toDouble (82 - (- 82)) = 164"
  by (subst toDouble_at [where e = "-45"]) (simp_all add: roundTiesToEven_def)

lemma rd_diff_lon: "toDouble (0 - (- 180)) = 180"
  by (subst toDouble_at [where e = "-45"]) (simp_all add: roundTiesToEven_def)

lemma rd_factor: "toDouble (Math_PI / 180) = 5030569068109113 / 2 ^ 58"
  unfolding Math_PI_def
  by (subst toDouble_at [where e = "-58"]) (simp_all add: roundTiesToEven_def)

lemma rd_dLat: "toDouble (164 * (5030569068109113 / 2 ^ 58)) = 6445416618514801 / 2 ^ 51"
  by (subst toDouble_at [where e = "-51"]) (simp_all add: roundTiesToEven_def)

lemma rd_dLat2: "toDouble (6445416618514801 / 2 ^ 51 / 2) = 6445416618514801 / 2 ^ 52"
  by (subst toDouble_at [where e = "-52"]) (simp_all add: roundTiesToEven_def)

lemma rd_dLon: "toDouble (180 * (5030569068109113 / 2 ^ 58)) = 884279719003555 / 2 ^ 48"
  by (subst toDouble_at [where e = "-51"]) (simp_all add: roundTiesToEven_def)

lemma rd_dLon2: "toDouble (884279719003555 / 2 ^ 48 / 2) = 884279719003555 / 2 ^ 49"
  by (subst toDouble_at [where e = "-52"]) (simp_all add: roundTiesToEven_def)

lemma rd_lat1: "toDouble (- 82 * (5030569068109113 / 2 ^ 58)) = - (6445416618514801 / 2 ^ 52)"
  by (subst toDouble_at [where e = "-52"]) (simp_all add: roundTiesToEven_def)

lemma rd_lat2: "toDouble (82 * (5030569068109113 / 2 ^ 58)) = 6445416618514801 / 2 ^ 52"
  by (subst toDouble_at [where e = "-52"]) (simp_all add: roundTiesToEven_def)

lemma rd_sin_sq:
  "toDouble (4459770905381437 / 2 ^ 52 * (4459770905381437 / 2 ^ 52)) =
     8832737443003841 / 2 ^ 53"
  by (subst toDouble_at [where e = "-53"]) (simp_all add: roundTiesToEven_def)

lemma rd_cos_sq:
  "toDouble (2507119702494989 / 2 ^ 54 * (2507119702494989 / 2 ^ 54)) =
     5582777975588870 / 2 ^ 58"
  by (subst toDouble_at [where e = "-58"]) (simp_all add: roundTiesToEven_def)

lemma rd_cos_sq_one:
  "toDouble (5582777975588870 / 2 ^ 58 * 1) = 5582777975588870 / 2 ^ 58"
  by (subst toDouble_at [where e = "-58"]) (simp_all add: roundTiesToEven_def)

lemma rd_a:
  "toDouble (8832737443003841 / 2 ^ 53 + 5582777975588870 / 2 ^ 58) = 1 + 1 / 2 ^ 52"
  by (subst toDouble_at [where e = "-52"]) (simp_all add: roundTiesToEven_def)

lemma rd_one_minus_a: "toDouble (1 - (1 + 1 / 2 ^ 52)) = - (1 / 2 ^ 52)"
  by (subst toDouble_at [where e = "-104"]) (simp_all add: roundTiesToEven_def)

text \<open>
  \<^bold>\<open>C8.\<close> The distance is meant to be symmetric, \<open>d(a, b) == d(b, a)\<close> for every pair of
  points, and over the reals it is (\<open>calculateDistance_sym\<close>, with
  \<open>calculateDistance_same\<close> and \<open>calculateDistance_arcsin\<close> for the distance 0 of a point to
  itself and the haversine formula with radius 6371 and angles in radians). As the code
  computes it, in doubles, it is not: for the nearly antipodal points (-82, -180) and
  (82, 0), with the sine and cosine a correctly rounding library returns, the sum \<open>a\<close>
  rounds to \<^verbatim>\<open>1 + 2^-52\<close>, \<^verbatim>\<open>Math.sqrt(1 - a)\<close> is NaN and so is the distance, which
  is then not equal to the distance in the other direction, nor to itself.
\<close>

theorem distance_nan_near_antipodal:
  assumes "sinOf lm (6445416618514801 / 2 ^ 52) = 4459770905381437 / 2 ^ 52"
    and "cosOf lm (- (6445416618514801 / 2 ^ 52)) = 2507119702494989 / 2 ^ 54"
    and "cosOf lm (6445416618514801 / 2 ^ 52) = 2507119702494989 / 2 ^ 54"
    and "sinOf lm (884279719003555 / 2 ^ 49) = 1"
  shows "calculateDistance_double lm (Some (- 82)) (Some (- 180)) (Some 82) (Some 0) = None \<and>
         \<not> numbersEqual
             (calculateDistance_double lm (Some (- 82)) (Some (- 180)) (Some 82) (Some 0))
             (calculateDistance_double lm (Some 82) (Some 0) (Some (- 82)) (Some (- 180)))"
proof -
  note ev = arith_def prod.case option.case
  have deg: "deg2rad_double (Some x) = Some (toDouble (x * (5030569068109113 / 2 ^ 58)))" for x
    by (simp only: deg2rad_double_def ev rd_factor)
  have d164: "arith (-) (Some 82) (Some (- 82)) = Some 164"
    by (simp only: ev rd_diff_lat)
  have dLat: "deg2rad_double (arith (-) (Some 82) (Some (- 82))) =
                Some (6445416618514801 / 2 ^ 51)"
    by (simp only: d164 deg rd_dLat)
  have d180: "arith (-) (Some 0) (Some (- 180)) = Some 180"
    by (simp only: ev rd_diff_lon)
  have dLon: "deg2rad_double (arith (-) (Some 0) (Some (- 180))) =
                Some (884279719003555 / 2 ^ 48)"
    by (simp only: d180 deg rd_dLon)
  have hLat: "arith (/) (Some (6445416618514801 / 2 ^ 51)) (Some 2) =
                Some (6445416618514801 / 2 ^ 52)"
    by (simp only: ev rd_dLat2)
  have hLon: "arith (/) (Some (884279719003555 / 2 ^ 48)) (Some 2) =
                Some (884279719003555 / 2 ^ 49)"
    by (simp only: ev rd_dLon2)
  have l1: "deg2rad_double (Some (- 82)) = Some (- (6445416618514801 / 2 ^ 52))"
    by (simp only: deg rd_lat1)
  have l2: "deg2rad_double (Some 82) = Some (6445416618514801 / 2 ^ 52)"
    by (simp only: deg rd_lat2)
  have s1: "Math_sin lm (Some (6445416618514801 / 2 ^ 52)) = Some (4459770905381437 / 2 ^ 52)"
    by (simp only: Math_sin_def option.map assms)
  have s2: "Math_sin lm (Some (884279719003555 / 2 ^ 49)) = Some 1"
    by (simp only: Math_sin_def option.map assms)
  have k1: "Math_cos lm (Some (- (6445416618514801 / 2 ^ 52))) =
              Some (2507119702494989 / 2 ^ 54)"
    by (simp only: Math_cos_def option.map assms)
  have k2: "Math_cos lm (Some (6445416618514801 / 2 ^ 52)) = Some (2507119702494989 / 2 ^ 54)"
    by (simp only: Math_cos_def option.map assms)
  have sq: "arith (*) (Some (4459770905381437 / 2 ^ 52)) (Some (4459770905381437 / 2 ^ 52)) =
              Some (8832737443003841 / 2 ^ 53)"
    by (simp only: ev rd_sin_sq)
  have cq: "arith (*) (Some (2507119702494989 / 2 ^ 54)) (Some (2507119702494989 / 2 ^ 54)) =
              Some (5582777975588870 / 2 ^ 58)"
    by (simp only: ev rd_cos_sq)
  have c1: "arith (*) (Some (5582777975588870 / 2 ^ 58)) (Some 1) =
              Some (5582777975588870 / 2 ^ 58)"
    by (simp only: ev rd_cos_sq_one)
  have a: "arith (+) (Some (8832737443003841 / 2 ^ 53)) (Some (5582777975588870 / 2 ^ 58)) =
             Some (1 + 1 / 2 ^ 52)"
    by (simp only: ev rd_a)
  have m: "arith (-) (Some 1) (Some (1 + 1 / 2 ^ 52)) = Some (- (1 / 2 ^ 52))"
    by (simp only: ev rd_one_minus_a)
  have n: "Math_sqrt (Some (- (1 / 2 ^ 52))) = None"
    by (simp add: Math_sqrt_def)
  have t: "Math_atan2_double lm y None = None" for y
    by (simp add: Math_atan2_double_def split: option.splits)
  have z: "arith g y None = None" for g y
    by (simp add: arith_def split: option.splits)
  have "calculateDistance_double lm (Some (- 82)) (Some (- 180)) (Some 82) (Some 0) = None"
    unfolding calculateDistance_double_def Let_def
    by (simp only: dLat dLon hLat hLon l1 l2 s1 s2 k1 k2 sq cq c1 a m n t z)
  then show ?thesis by (simp add: numbersEqual_def)
qed

theorem distance_nan_near_antipodal_witness:
  "calculateDistance_double libm_rounding (Some (- 82)) (Some (- 180)) (Some 82) (Some 0) = None \<and>
   \<not> numbersEqual
       (calculateDistance_double libm_rounding (Some (- 82)) (Some (- 180)) (Some 82) (Some 0))
       (calculateDistance_double libm_rounding (Some 82) (Some 0) (Some (- 82)) (Some (- 180)))"
proof -
  have 1: "sinOf libm_rounding (6445416618514801 / 2 ^ 52) = 4459770905381437 / 2 ^ 52"
    by (simp add: libm_rounding_def)
  have 2: "cosOf libm_rounding (- (6445416618514801 / 2 ^ 52)) = 2507119702494989 / 2 ^ 54"
    by (simp add: libm_rounding_def)
  have 3: "cosOf libm_rounding (6445416618514801 / 2 ^ 52) = 2507119702494989 / 2 ^ 54"
    by (simp add: libm_rounding_def)
  have 4: "sinOf libm_rounding (884279719003555 / 2 ^ 49) = 1"
    by (simp add: libm_rounding_def)
  from 1 2 3 4 show ?thesis by (rule distance_nan_near_antipodal)
qed

subsection \<open>Sorting and the threshold\<close>

lemma set_insert_by: "set (insert_by cmp x ys) = insert x (set ys)"
  by (induction ys) auto

lemma set_Array_sort: "set (Array_sort cmp xs) = set xs"
  unfolding Array_sort_def by (induction xs) (auto simp: set_insert_by)

lemma descending_insert_by:
  "descending ys \<Longrightarrow> descending (insert_by byScoreDesc x ys)"
  unfolding descending_def
  by (induction ys) (auto simp: byScoreDesc_def set_insert_by)

lemma descending_Array_sort: "descending (Array_sort byScoreDesc xs)"
  unfolding Array_sort_def
  by (induction xs) (auto simp: descending_insert_by, simp add: descending_def)

text \<open>Inserting leaves the elements of each score in their order: an element passes only
  elements of greater score.\<close>

lemma filter_insert_by:
  "filter (\<lambda>m. score m = k) (insert_by byScoreDesc x ys) =
     (if score x = k then x # filter (\<lambda>m. score m = k) ys else filter (\<lambda>m. score m = k) ys)"
  by (induction ys) (auto simp: byScoreDesc_def)

lemma filter_Array_sort:
  "filter (\<lambda>m. score m = k) (Array_sort byScoreDesc xs) = filter (\<lambda>m. score m = k) xs"
  unfolding Array_sort_def
  by (induction xs) (auto simp: filter_insert_by)

lemma set_rank: "set (rank ms) = {m \<in> set ms. 30 < score m}"
  by (auto simp: rank_def set_Array_sort)

lemma descending_rank: "descending (rank ms)"
  by (simp add: rank_def descending_Array_sort)

lemma descending_adjacent:
  "descending ms \<Longrightarrow> Suc j < length ms \<Longrightarrow> score (ms ! Suc j) \<le> score (ms ! j)"
  unfolding descending_def by (simp add: sorted_wrt_iff_nth_less)

lemma rank_stable:
  "filter (\<lambda>m. score m = k) (rank ms) =
     filter (\<lambda>m. score m = k) (filter (\<lambda>m. 30 < score m) ms)"
  by (simp add: rank_def filter_Array_sort)

lemma findRecipientsForDonation_cases:
  "fst (findRecipientsForDonation clock w i prefs) =
     (case fst (fetchDonationById clock w i) of
        None \<Rightarrow> []
      | Some d \<Rightarrow> rank (map (matchRecipient d) prefs))"
  by (simp add: findRecipientsForDonation_def split: prod.splits option.splits)


lemma locationRule_skip:
  "loc = None \<or> \<not> truthy (latitude d) \<or> \<not> truthy (longitude d) \<Longrightarrow>
   locationRule loc maxD d t = t"
  by (cases t) (auto simp: locationRule_def truthy_def split: option.splits)

text \<open>
  \<^bold>\<open>C1.\<close> Every result returned by \<^verbatim>\<open>findMatchesForRecipient\<close> and by
  \<^verbatim>\<open>findRecipientsForDonation\<close> has a score strictly greater than 30, whatever the needs
  and the candidates; in particular no returned result has the score 30.
\<close>

theorem threshold:
  "(\<forall>m \<in> set (findMatchesForRecipient parse clock needs ds). 30 < score m \<and> score m \<noteq> 30) \<and>
   (\<forall>m \<in> set (fst (findRecipientsForDonation clock w i prefs)). 30 < score m \<and> score m \<noteq> 30)"
  by (auto simp: findMatchesForRecipient_def findRecipientsForDonation_cases set_rank
           split: option.splits)

theorem threshold_witness:
  "findMatchesForRecipient (parse_at 0) (clock_at 0) needs_disaster_high sample_donations \<noteq> [] \<and>
   30 < score (hd (findMatchesForRecipient (parse_at 0) (clock_at 0) needs_disaster_high
                     sample_donations)) \<and>
   fst (findRecipientsForDonation (clock_at 0) fresh_world ''PH-DON-006'' [needs_disaster_high])
     \<noteq> [] \<and>
   30 < score (hd (fst (findRecipientsForDonation (clock_at 0) fresh_world ''PH-DON-006''
                          [needs_disaster_high])))"
proof -
  let ?R = "findMatchesForRecipient (parse_at 0) (clock_at 0) needs_disaster_high sample_donations"
  let ?S = "fst (findRecipientsForDonation (clock_at 0) fresh_world ''PH-DON-006''
                   [needs_disaster_high])"
  have r: "?R \<noteq> []" by (simp add: eval_match eval_examples)
  have s: "?S \<noteq> []" by (simp add: eval_store eval_examples)
  from r s have "hd ?R \<in> set ?R" "hd ?S \<in> set ?S" by simp_all
  with threshold [where parse = "parse_at 0" and clock = "clock_at 0"
      and needs = needs_disaster_high and ds = sample_donations and w = fresh_world
      and i = "''PH-DON-006''" and prefs = "[needs_disaster_high]"] r s
  show ?thesis by blast
qed

lemma nth_scoreDonations:
  "k < length ds \<Longrightarrow>
   scoreDonations parse clock needs ds ! k = matchDonation parse needs (clock k) (ds ! k)"
  by (simp add: scoreDonations_def nth_enumerate_eq)

lemma length_scoreDonations: "length (scoreDonations parse clock needs ds) = length ds"
  by (simp add: scoreDonations_def)

text \<open>
  \<^bold>\<open>C2.\<close> A recipient whose needs are the category "disaster" with urgency "high", and a
  candidate donation, anywhere in the list of candidates, of category "disaster" and status
  "urgent", without coordinates and dated at the reading of the clock that is made for it:
  the callback of \<^verbatim>\<open>findMatchesForRecipient\<close> gives it the score 75 (30 + 25 + 20) and
  three reasons, and this result is in the returned list. When it is the only candidate the
  returned list is this one result.
\<close>

theorem category_urgency_scenario:
  assumes "categories needs = [''disaster'']" and "urgency needs = Some ''high''"
    and "k < length ds"
    and "category (ds ! k) = ''disaster''" and "status (ds ! k) = ''urgent''"
    and "latitude (ds ! k) = None" and "longitude (ds ! k) = None"
    and "parse (date (ds ! k)) = Some (clock k)"
  shows "scoreDonations parse clock needs ds ! k =
           \<lparr>donationId = id_str (ds ! k), recipientId = userId needs, score = 75,
            matchReason = [''Category match: disaster'',
                           ''Urgent donation matches high urgency need'',
                           ''Recently listed donation'']\<rparr> \<and>
         \<lparr>donationId = id_str (ds ! k), recipientId = userId needs, score = 75,
          matchReason = [''Category match: disaster'',
                         ''Urgent donation matches high urgency need'',
                         ''Recently listed donation'']\<rparr>
           \<in> set (findMatchesForRecipient parse clock needs ds) \<and>
         score (scoreDonations parse clock needs ds ! k) = 75 \<and>
         length (matchReason (scoreDonations parse clock needs ds ! k)) = 3 \<and>
         (length ds = 1 \<longrightarrow>
            findMatchesForRecipient parse clock needs ds =
              [\<lparr>donationId = id_str (ds ! k), recipientId = userId needs, score = 75,
                matchReason = [''Category match: disaster'',
                               ''Urgent donation matches high urgency need'',
                               ''Recently listed donation'']\<rparr>])"
proof -
  let ?R = "\<lparr>donationId = id_str (ds ! k), recipientId = userId needs, score = 75,
            matchReason = [''Category match: disaster'',
                           ''Urgent donation matches high urgency need'',
                           ''Recently listed donation'']\<rparr>"
  have loc: "locationRule (location needs) (maxDistance needs) (ds ! k) t = t" for t
    using assms by (simp add: locationRule_skip truthy_def)
  have m: "matchDonation parse needs (clock k) (ds ! k) = ?R"
    using assms loc
    by (simp add: matchDonation_def categoryRule_def urgencyRule_def
        recencyRule_def daysSince_def Math_round_def)
  with assms have n: "scoreDonations parse clock needs ds ! k = ?R"
    by (simp add: nth_scoreDonations)
  have "scoreDonations parse clock needs ds ! k \<in> set (scoreDonations parse clock needs ds)"
    using assms by (intro nth_mem) (simp add: length_scoreDonations)
  with n have "?R \<in> set (scoreDonations parse clock needs ds)" by simp
  then have r: "?R \<in> set (findMatchesForRecipient parse clock needs ds)"
    by (simp add: findMatchesForRecipient_def set_rank)
  have one: "findMatchesForRecipient parse clock needs ds = [?R]" if "length ds = 1"
  proof -
    from that assms have k0: "k = 0" by simp
    from that obtain d where ds: "ds = [d]" by (cases ds) auto
    with k0 m show ?thesis
      by (simp add: findMatchesForRecipient_def scoreDonations_def rank_def Array_sort_def)
  qed
  from n r one show ?thesis by simp
qed

theorem category_urgency_scenario_witness:
  "6 < length (mockFilipinoDonations @ [sample ''A'' ''disaster'' ''urgent'']) \<and>
   \<lparr>donationId = ''A'', recipientId = ''u1'', score = 75,
     matchReason = [''Category match: disaster'',
                    ''Urgent donation matches high urgency need'',
                    ''Recently listed donation'']\<rparr>
     \<in> set (findMatchesForRecipient (parse_at 0) (clock_at 0) needs_disaster_high
              (mockFilipinoDonations @ [sample ''A'' ''disaster'' ''urgent'']))"
  using category_urgency_scenario [of needs_disaster_high 6
      "mockFilipinoDonations @ [sample ''A'' ''disaster'' ''urgent'']" "parse_at 0" "clock_at 0"]
  by (simp add: eval_examples mockFilipinoDonations_def)

lemma findById_unknown: "i \<notin> id_str ` set ds \<Longrightarrow> findById i ds = None"
  by (auto simp: findById_def find_None_iff)

lemma fetchDonationById_unknown:
  assumes "i \<notin> id_str ` set (knownDonations w)"
  shows "fst (fetchDonationById clock w i) = None"
proof -
  have m: "findById i scrapeRealDonations = None"
    using assms by (intro findById_unknown) (auto simp: knownDonations_def)
  have c: "findById i (data c) = None" if "scrapedDataCache w = Some c" for c
    using assms that by (intro findById_unknown) (auto simp: knownDonations_def)
  have u: "findById i uds = None" if "userDonations w = Some uds" for uds
    using assms that by (intro findById_unknown) (auto simp: knownDonations_def)
  show ?thesis
    using m c u
    by (auto simp: fetchDonationById_def scrapeDonationById_def scrapeDonations_def
        isCacheValid_def Date_now_def Let_def split: option.splits prod.splits bool.splits)
qed

text \<open>
  \<^bold>\<open>C5.\<close> When the id resolves to no donation, that is when \<^verbatim>\<open>fetchDonationById\<close> gives
  null, as it does for every id that is neither in the scraped data, nor in the cache, nor
  in a readable local storage, \<^verbatim>\<open>findRecipientsForDonation\<close> returns the empty list, for
  every list of recipients. A local storage that cannot be read is one of the outcomes of
  the lookup, so nothing is thrown.
\<close>

theorem unknown_donation_id:
  "fst (fetchDonationById clock w i) = None \<or> i \<notin> id_str ` set (knownDonations w) \<Longrightarrow>
   fst (findRecipientsForDonation clock w i prefs) = []"
  using fetchDonationById_unknown [of i w clock]
  by (auto simp: findRecipientsForDonation_cases)

theorem unknown_donation_id_witness:
  "''nonexistent-id'' \<notin> id_str ` set (knownDonations fresh_world) \<and>
   fst (findRecipientsForDonation (clock_at 0) fresh_world ''nonexistent-id''
          [needs_disaster_high]) = [] \<and>
   fst (fetchDonationById (clock_at 0) (fresh_world\<lparr>userDonations := None\<rparr>) ''DON-1'') = None \<and>
   fst (findRecipientsForDonation (clock_at 0) (fresh_world\<lparr>userDonations := None\<rparr>) ''DON-1''
          [needs_disaster_high]) = []"
proof -
  have h: "''nonexistent-id'' \<notin> id_str ` set (knownDonations fresh_world)"
    by (simp add: knownDonations_def scrapeRealDonations_def mockFilipinoDonations_def
        fresh_world_def)
  have g: "fst (fetchDonationById (clock_at 0) (fresh_world\<lparr>userDonations := None\<rparr>) ''DON-1'')
             = None"
    by (simp add: eval_store eval_examples)
  from h g unknown_donation_id [of "clock_at 0" fresh_world "''nonexistent-id''"]
    unknown_donation_id [of "clock_at 0" "fresh_world\<lparr>userDonations := None\<rparr>" "''DON-1''"]
  show ?thesis by blast
qed

subsection \<open>The rules in closed form\<close>

text \<open>Each step adds its points and its reason exactly when its condition holds.\<close>

lemma categoryRule_eq:
  "categoryRule cats d (sc, rs) =
     (sc + (if categoryMatches cats d then 30 else 0),
      rs @ (if categoryMatches cats d then [''Category match: '' @ category d] else []))"
  by (simp add: categoryRule_def categoryMatches_def)

lemma urgencyRule_eq:
  "urgencyRule urg d (sc, rs) =
     (sc + (if urgencyAligned urg d then 25 else 0),
      rs @ (if urgencyAligned urg d then [''Urgent donation matches high urgency need''] else []))"
  by (simp add: urgencyRule_def urgencyAligned_def)

lemma locationRule_eq:
  "locationRule loc maxD d (sc, rs) =
     (sc + locationScore loc maxD d,
      rs @ (if withinRadius loc maxD d
            then [''Location proximity: '' @
                  numberToString (Math_round (distanceTo loc d)) @ ''km away'']
            else []))"
  by (auto simp: locationRule_def locationScore_def withinRadius_def distanceTo_def truthy_def
        Let_def split: option.splits)

lemma locationScore_eq:
  "locationScore loc maxD d =
     (if withinRadius loc maxD d
      then Math_round (25 * (1 - distanceTo loc d / effectiveMaxDistance maxD)) else 0)"
  by (auto simp: locationRule_def locationScore_def withinRadius_def distanceTo_def truthy_def
        Let_def split: option.splits)


lemma recencyScore_eq:
  "recencyScore parse now d =
     (case parse (date d) of
        None \<Rightarrow> 0
      | Some t \<Rightarrow> if daysSince now t \<le> 7 then Math_round (20 * (1 - daysSince now t / 7)) else 0)"
  by (auto simp: recencyRule_def recencyScore_def Let_def split: option.splits)


lemma matchRecipient_eq:
  "matchRecipient d r =
     \<lparr>donationId = id_str d, recipientId = userId r,
      score = (if categoryMatches (categories r) d then 30 else 0) +
              (if urgencyAligned (urgency r) d then 25 else 0) +
              locationScore (location r) (maxDistance r) d,
      matchReason = reasonsByCondition r d False\<rparr>"
  by (simp add: matchRecipient_def categoryRule_eq urgencyRule_eq locationRule_eq
      reasonsByCondition_def)

subsection \<open>Bounds of the location and recency scores\<close>

lemma effectiveMaxDistance_nonzero: "effectiveMaxDistance m \<noteq> 0"
  by (auto simp: effectiveMaxDistance_def truthy_def split: option.splits)

lemma distanceTo_nonneg: "0 \<le> distanceTo loc d"
  by (auto simp: distanceTo_def calculateDistance_nonneg split: option.splits)

lemma Math_round_range:
  assumes "0 \<le> x" and "x \<le> real_of_int n"
  shows "0 \<le> Math_round x \<and> Math_round x \<le> n"
proof -
  have "0 \<le> \<lfloor>x + 1 / 2\<rfloor>" using assms by simp
  moreover have "\<lfloor>x + 1 / 2\<rfloor> \<le> n"
  proof -
    have "x + 1 / 2 < real_of_int (n + 1)" using assms by simp
    then have "\<lfloor>x + 1 / 2\<rfloor> < n + 1" by (simp only: floor_less_iff)
    then show ?thesis by simp
  qed
  ultimately show ?thesis by (simp add: Math_round_def)
qed

lemma locationScore_range:
  "0 \<le> locationScore loc maxD d \<and> locationScore loc maxD d \<le> 25"
proof (cases "withinRadius loc maxD d")
  case False
  then show ?thesis by (simp add: locationScore_eq)
next
  case True
  define x where "x = distanceTo loc d"
  define M where "M = effectiveMaxDistance maxD"
  have x0: "0 \<le> x" by (simp add: x_def distanceTo_nonneg)
  have xM: "x \<le> M" using True by (simp add: withinRadius_def x_def M_def)
  have "M \<noteq> 0" by (simp add: M_def effectiveMaxDistance_nonzero)
  with x0 xM have M0: "0 < M" by simp
  have q0: "0 \<le> x / M" using x0 M0 by simp
  have q1: "x / M \<le> 1" using xM M0 by simp
  have "0 \<le> 25 * (1 - x / M)" "25 * (1 - x / M) \<le> real_of_int 25"
    using q0 q1 by simp_all
  then have "0 \<le> Math_round (25 * (1 - x / M)) \<and> Math_round (25 * (1 - x / M)) \<le> 25"
    by (rule Math_round_range)
  with True show ?thesis by (simp add: locationScore_eq x_def M_def)
qed

lemma recencyScore_range:
  assumes "parse (date d) = Some t" and "t \<le> now"
  shows "0 \<le> recencyScore parse now d \<and> recencyScore parse now d \<le> 20"
proof (cases "daysSince now t \<le> 7")
  case False
  with assms show ?thesis by (simp add: recencyScore_eq)
next
  case True
  have d0: "0 \<le> daysSince now t" using assms by (simp add: daysSince_def)
  have "0 \<le> 20 * (1 - daysSince now t / 7)" "20 * (1 - daysSince now t / 7) \<le> real_of_int 20"
    using d0 True by simp_all
  then have "0 \<le> Math_round (20 * (1 - daysSince now t / 7)) \<and>
             Math_round (20 * (1 - daysSince now t / 7)) \<le> 20"
    by (rule Math_round_range)
  with True assms show ?thesis by (simp add: recencyScore_eq)
qed

lemma recencyScore_boundaries:
  "recencyScore (parse_at t) (t + 7 * 86400000) d = 0"
  "recencyScore (parse_at t) t d = 20"
  "recencyScore (parse_at t) (t + 302400000) d = 10"
  by (simp_all add: recencyScore_eq parse_at_def daysSince_def Math_round_def)

text \<open>
  \<^bold>\<open>C6.\<close> The recency rule is applied only when \<open>daysSince \<le> 7\<close> and then adds
  \<open>round (20 * (1 - daysSince / 7))\<close> (\<open>recencyScore_eq\<close>): 0 at seven days, 20 at the
  reading of the clock, 10 at three and a half days (\<open>recencyScore_boundaries\<close>), and a
  value from 0 to 20 for every donation dated at or before the reading
  (\<open>recencyScore_range\<close>). The comment in the source says "up to 20 points", but nothing
  bounds \<open>daysSince\<close> from below: a donation whose date is parsed to a time after the
  reading of the clock gets more than 20. Five hours ahead it gets 21, seven days ahead 40.
\<close>

theorem recency_future_date:
  "recencyScore (parse_at 1793577600000) 1793559600000 (sample ''A'' ''disaster'' ''active'') = 21 \<and>
   recencyScore (parse_at 604800000) 0 (sample ''A'' ''disaster'' ''active'') = 40 \<and>
   findMatchesForRecipient (parse_at 1793577600000) (clock_at 1793559600000) needs_disaster_high
     [sample ''A'' ''disaster'' ''active''] =
   [\<lparr>donationId = ''A'', recipientId = ''u1'', score = 51,
     matchReason = [''Category match: disaster'', ''Recently listed donation'']\<rparr>]"
  by (simp add: recencyScore_def eval_match eval_examples)

subsection \<open>Reasons\<close>



subsection \<open>Order of the results\<close>

text \<open>
  \<^bold>\<open>C3.\<close> The list returned by either direction is in non-increasing order of score
  (for every adjacent pair the earlier score is at least the later one), and the results of
  any one score stand in the order their candidates have in the input.
\<close>

theorem sorted_and_stable:
  "descending (findMatchesForRecipient parse clock needs ds) \<and>
   (\<forall>j. Suc j < length (findMatchesForRecipient parse clock needs ds) \<longrightarrow>
      score (findMatchesForRecipient parse clock needs ds ! Suc j)
        \<le> score (findMatchesForRecipient parse clock needs ds ! j)) \<and>
   (\<forall>k. filter (\<lambda>m. score m = k) (findMatchesForRecipient parse clock needs ds) =
        filter (\<lambda>m. score m = k)
          (filter (\<lambda>m. 30 < score m) (scoreDonations parse clock needs ds))) \<and>
   descending (fst (findRecipientsForDonation clock' w i prefs)) \<and>
   (\<forall>j. Suc j < length (fst (findRecipientsForDonation clock' w i prefs)) \<longrightarrow>
      score (fst (findRecipientsForDonation clock' w i prefs) ! Suc j)
        \<le> score (fst (findRecipientsForDonation clock' w i prefs) ! j)) \<and>
   (\<forall>d k. fst (fetchDonationById clock' w i) = Some d \<longrightarrow>
      filter (\<lambda>m. score m = k) (fst (findRecipientsForDonation clock' w i prefs)) =
      filter (\<lambda>m. score m = k) (filter (\<lambda>m. 30 < score m) (map (matchRecipient d) prefs)))"
proof -
  have 1: "descending (findMatchesForRecipient parse clock needs ds)"
    by (simp add: findMatchesForRecipient_def descending_rank)
  have 2: "descending (fst (findRecipientsForDonation clock' w i prefs))"
  proof (cases "fst (fetchDonationById clock' w i)")
    case None
    then show ?thesis by (simp add: findRecipientsForDonation_cases descending_def)
  next
    case (Some d)
    then show ?thesis by (simp add: findRecipientsForDonation_cases descending_rank)
  qed
  have 3: "filter (\<lambda>m. score m = k) (findMatchesForRecipient parse clock needs ds) =
        filter (\<lambda>m. score m = k)
          (filter (\<lambda>m. 30 < score m) (scoreDonations parse clock needs ds))" for k
    unfolding findMatchesForRecipient_def by (rule rank_stable)
  have 4: "filter (\<lambda>m. score m = k) (fst (findRecipientsForDonation clock' w i prefs)) =
      filter (\<lambda>m. score m = k) (filter (\<lambda>m. 30 < score m) (map (matchRecipient d) prefs))"
    if "fst (fetchDonationById clock' w i) = Some d" for d k
    using that by (simp only: findRecipientsForDonation_cases option.case rank_stable)
  from 1 2 3 4 descending_adjacent [OF 1] descending_adjacent [OF 2]
  show ?thesis by blast
qed

theorem sorted_and_stable_witness:
  "Suc 1 < length (findMatchesForRecipient (parse_at 0) (clock_at 0) needs_disaster_high
                     sample_donations) \<and>
   score (findMatchesForRecipient (parse_at 0) (clock_at 0) needs_disaster_high
            sample_donations ! Suc 1)
     \<le> score (findMatchesForRecipient (parse_at 0) (clock_at 0) needs_disaster_high
                 sample_donations ! 1) \<and>
   map donationId (filter (\<lambda>m. score m = 75)
     (findMatchesForRecipient (parse_at 0) (clock_at 0) needs_disaster_high sample_donations))
     = [''A'', ''D''] \<and>
   fst (fetchDonationById (clock_at 0) fresh_world ''PH-DON-006'') =
     Some (mockFilipinoDonations ! 5) \<and>
   map recipientId (filter (\<lambda>m. score m = 55)
     (fst (findRecipientsForDonation (clock_at 0) fresh_world ''PH-DON-006''
        [needs_disaster_high, needs_located, needs_disaster_high\<lparr>userId := ''u3''\<rparr>])))
     = [''u1'', ''u3'']"
proof -
  note t = sorted_and_stable [where parse = "parse_at 0" and clock = "clock_at 0"
      and needs = needs_disaster_high and ds = sample_donations and clock' = "clock_at 0"
      and w = fresh_world and i = "''PH-DON-006''"
      and prefs = "[needs_disaster_high, needs_located, needs_disaster_high\<lparr>userId := ''u3''\<rparr>]"]
  let ?R = "findMatchesForRecipient (parse_at 0) (clock_at 0) needs_disaster_high sample_donations"
  have len: "Suc 1 < length ?R" by (simp add: eval_match eval_examples)
  have adj: "score (?R ! Suc 1) \<le> score (?R ! 1)" using t len by blast
  have "filter (\<lambda>m. score m = 75) ?R =
        filter (\<lambda>m. score m = 75) (filter (\<lambda>m. 30 < score m)
          (scoreDonations (parse_at 0) (clock_at 0) needs_disaster_high sample_donations))"
    using t by blast
  then have st: "map donationId (filter (\<lambda>m. score m = 75) ?R) = [''A'', ''D'']"
    by (simp add: eval_match eval_examples)
  have f: "fst (fetchDonationById (clock_at 0) fresh_world ''PH-DON-006'') =
     Some (mockFilipinoDonations ! 5)"
    by (simp add: eval_store eval_examples)
  have "filter (\<lambda>m. score m = 55)
     (fst (findRecipientsForDonation (clock_at 0) fresh_world ''PH-DON-006''
        [needs_disaster_high, needs_located, needs_disaster_high\<lparr>userId := ''u3''\<rparr>])) =
     filter (\<lambda>m. score m = 55) (filter (\<lambda>m. 30 < score m)
       (map (matchRecipient (mockFilipinoDonations ! 5))
          [needs_disaster_high, needs_located, needs_disaster_high\<lparr>userId := ''u3''\<rparr>]))"
    using t f by blast
  then have st2: "map recipientId (filter (\<lambda>m. score m = 55)
     (fst (findRecipientsForDonation (clock_at 0) fresh_world ''PH-DON-006''
        [needs_disaster_high, needs_located, needs_disaster_high\<lparr>userId := ''u3''\<rparr>])))
     = [''u1'', ''u3'']"
    by (simp add: eval_store eval_examples)
  from len adj st f st2 show ?thesis by blast
qed


subsection \<open>The direction from a donation to recipients\<close>

lemma no_recency_reason: "''Recently listed donation'' \<notin> set (reasonsByCondition r d False)"
  by (simp add: reasonsByCondition_def)

lemma locationRule_date: "locationRule loc maxD (d\<lparr>date := s\<rparr>) = locationRule loc maxD d"
  by (auto simp: locationRule_def fun_eq_iff split: option.splits)

lemma matchRecipient_date: "matchRecipient (d\<lparr>date := s\<rparr>) r = matchRecipient d r"
  by (simp add: matchRecipient_def categoryRule_def urgencyRule_def locationRule_date)

lemma in_findRecipientsForDonation:
  assumes "m \<in> set (fst (findRecipientsForDonation clock w i prefs))"
  shows "\<exists>d r. fst (fetchDonationById clock w i) = Some d \<and> r \<in> set prefs \<and>
           m = matchRecipient d r \<and> 30 < score m"
proof (cases "fst (fetchDonationById clock w i)")
  case None
  with assms show ?thesis by (simp add: findRecipientsForDonation_cases)
next
  case (Some d)
  with assms have "m \<in> set (rank (map (matchRecipient d) prefs))"
    by (simp add: findRecipientsForDonation_cases)
  then have "m \<in> matchRecipient d ` set prefs" "30 < score m"
    by (simp_all add: set_rank)
  with Some show ?thesis by blast
qed


text \<open>
  \<^bold>\<open>C4.\<close> \<^verbatim>\<open>findRecipientsForDonation\<close> has no recency rule: every returned score is
  the sum of the category points (30 or 0), the urgency points (25 or 0) and the location
  points (from 0 to 25), the reason "Recently listed donation" is in no returned list of
  reasons, and the result is the same whatever the donation's date.
\<close>

theorem donation_direction_has_no_recency:
  "\<forall>m \<in> set (fst (findRecipientsForDonation clock w i prefs)).
     ''Recently listed donation'' \<notin> set (matchReason m) \<and>
     (\<exists>d r. fst (fetchDonationById clock w i) = Some d \<and> r \<in> set prefs \<and>
        score m = (if categoryMatches (categories r) d then 30 else 0) +
                  (if urgencyAligned (urgency r) d then 25 else 0) +
                  locationScore (location r) (maxDistance r) d \<and>
        0 \<le> locationScore (location r) (maxDistance r) d \<and>
        locationScore (location r) (maxDistance r) d \<le> 25 \<and>
        (\<forall>s. matchRecipient (d\<lparr>date := s\<rparr>) r = m))"
proof
  fix m
  assume "m \<in> set (fst (findRecipientsForDonation clock w i prefs))"
  then obtain d r where f: "fst (fetchDonationById clock w i) = Some d" and r: "r \<in> set prefs"
    and m: "m = matchRecipient d r"
    using in_findRecipientsForDonation by blast
  have 1: "''Recently listed donation'' \<notin> set (matchReason m)"
    by (simp add: m matchRecipient_eq no_recency_reason)
  have 2: "score m = (if categoryMatches (categories r) d then 30 else 0) +
                  (if urgencyAligned (urgency r) d then 25 else 0) +
                  locationScore (location r) (maxDistance r) d"
    by (simp add: m matchRecipient_eq)
  have 3: "\<forall>s. matchRecipient (d\<lparr>date := s\<rparr>) r = m"
    by (simp add: m matchRecipient_date)
  from f r 1 2 3 locationScore_range [of "location r" "maxDistance r" d]
  show "''Recently listed donation'' \<notin> set (matchReason m) \<and>
     (\<exists>d r. fst (fetchDonationById clock w i) = Some d \<and> r \<in> set prefs \<and>
        score m = (if categoryMatches (categories r) d then 30 else 0) +
                  (if urgencyAligned (urgency r) d then 25 else 0) +
                  locationScore (location r) (maxDistance r) d \<and>
        0 \<le> locationScore (location r) (maxDistance r) d \<and>
        locationScore (location r) (maxDistance r) d \<le> 25 \<and>
        (\<forall>s. matchRecipient (d\<lparr>date := s\<rparr>) r = m))"
    by blast
qed

theorem donation_direction_has_no_recency_witness:
  "fst (findRecipientsForDonation (clock_at 0) fresh_world ''PH-DON-006'' [needs_disaster_high])
     \<noteq> [] \<and>
   ''Recently listed donation'' \<notin> set (matchReason (hd (fst
      (findRecipientsForDonation (clock_at 0) fresh_world ''PH-DON-006''
         [needs_disaster_high]))))"
proof -
  let ?S = "fst (findRecipientsForDonation (clock_at 0) fresh_world ''PH-DON-006''
                   [needs_disaster_high])"
  have s: "?S \<noteq> []" by (simp add: eval_store eval_examples)
  then have "hd ?S \<in> set ?S" by simp
  with donation_direction_has_no_recency [of "clock_at 0" fresh_world "''PH-DON-006''"
      "[needs_disaster_high]"] s
  show ?thesis by blast
qed

lemma withinRadius_iff:
  "withinRadius loc maxD d \<longleftrightarrow>
     (\<exists>rlat rlon dlat dlon. loc = Some (rlat, rlon) \<and>
        latitude d = Some dlat \<and> longitude d = Some dlon \<and> dlat \<noteq> 0 \<and> dlon \<noteq> 0 \<and>
        calculateDistance rlat rlon dlat dlon \<le> effectiveMaxDistance maxD)"
  by (auto simp: withinRadius_def distanceTo_def truthy_def split: option.splits)




subsection \<open>The status timeline\<close>

text \<open>
  \<^bold>\<open>C9.\<close> For a donation of status "completed" and date \<^verbatim>\<open>2023-01-01\<close> (parsed to
  midnight UTC of that day), \<^verbatim>\<open>generateStatusTimeline\<close> returns, in this order and
  whatever the current time: the listed item with the date string as its timestamp, the
  matched item stamped twelve hours after the date, and the completed item stamped seven
  days after the date (the time value of 2023-01-08); no item has the status "urgent" or
  "arranged". The timestamps of the last two are what \<^verbatim>\<open>toLocaleDateString\<close> prints for
  those time values.
\<close>

theorem completed_timeline:
  assumes "status d = ''completed''" and "date d = ''2023-01-01''"
    and "parse ''2023-01-01'' = Some 1672531200000"
  shows "generateStatusTimeline fmt parse now d =
           [StatusItem ''1'' ''active'' ''Donation Listed''
              (title d @ '' has been listed for donation.'') ''2023-01-01'' (organization d),
            StatusItem ''2'' ''matched'' ''Potential Recipients Found''
              (''Potential recipients for '' @ title d @ '' have been identified.'')
              (fmt (1672531200000 + 12 * 3600000)) ''System'',
            StatusItem ''5'' ''completed'' ''Donation Completed''
              (''The donation to '' @ organization d @ '' has been successfully completed.'')
              (fmt (1672531200000 + 7 * 86400000)) (organization d)] \<and>
         fmt (1672531200000 + 7 * 86400000) = fmt 1673136000000 \<and>
         ''urgent'' \<notin> set (map item_status (generateStatusTimeline fmt parse now d)) \<and>
         ''arranged'' \<notin> set (map item_status (generateStatusTimeline fmt parse now d))"
  using assms
  by (simp add: generateStatusTimeline_def Let_def addHours_def addDays_def notAfter_def
      toLocaleDateString_def)

theorem completed_timeline_witness:
  "generateStatusTimeline numberToString parse_iso 0 donation_completed =
     [StatusItem ''1'' ''active'' ''Donation Listed''
        ''Relief goods has been listed for donation.'' ''2023-01-01'' ''Barangay Hall'',
      StatusItem ''2'' ''matched'' ''Potential Recipients Found''
        ''Potential recipients for Relief goods have been identified.''
        ''1672574400000'' ''System'',
      StatusItem ''5'' ''completed'' ''Donation Completed''
        ''The donation to Barangay Hall has been successfully completed.''
        ''1673136000000'' ''Barangay Hall'']"
  using completed_timeline [of donation_completed parse_iso numberToString 0]
  by (simp add: eval_examples numberToString_def digitOf_def)

subsection \<open>Coordinates that are zero\<close>

lemma scoreDonations_update:
  assumes "k < length ds"
    and "matchDonation parse needs (clock k) d' = matchDonation parse needs (clock k) (ds ! k)"
  shows "scoreDonations parse clock needs (ds[k := d']) = scoreDonations parse clock needs ds"
proof (rule nth_equalityI)
  show "length (scoreDonations parse clock needs (ds[k := d'])) =
        length (scoreDonations parse clock needs ds)"
    by (simp add: length_scoreDonations)
next
  fix j
  assume "j < length (scoreDonations parse clock needs (ds[k := d']))"
  then have j: "j < length ds" by (simp add: length_scoreDonations)
  show "scoreDonations parse clock needs (ds[k := d']) ! j =
        scoreDonations parse clock needs ds ! j"
    using j assms by (cases "j = k") (simp_all add: nth_scoreDonations)
qed

text \<open>
  \<^bold>\<open>C10.\<close> A donation whose latitude or longitude is exactly 0 is scored by both
  directions as the same donation without coordinates: the location rule leaves score and
  reasons as they are, also when the recipient has a location.
\<close>

theorem zero_coordinate_is_no_coordinate:
  assumes "latitude d = Some 0 \<or> longitude d = Some 0"
  shows "locationRule loc maxD d t = t \<and>
         matchDonation parse needs now d =
           matchDonation parse needs now (d\<lparr>latitude := None, longitude := None\<rparr>) \<and>
         matchRecipient d r = matchRecipient (d\<lparr>latitude := None, longitude := None\<rparr>) r \<and>
         (\<forall>k. k < length ds \<and> ds ! k = d \<longrightarrow>
            findMatchesForRecipient parse clock needs ds =
            findMatchesForRecipient parse clock needs
              (ds[k := d\<lparr>latitude := None, longitude := None\<rparr>])) \<and>
         (fst (fetchDonationById clock' w i) = Some d \<longrightarrow>
            fst (findRecipientsForDonation clock' w i prefs) =
            rank (map (matchRecipient (d\<lparr>latitude := None, longitude := None\<rparr>)) prefs))"
proof -
  let ?d = "d\<lparr>latitude := None, longitude := None\<rparr>"
  have a: "locationRule l m d u = u" for l m u
    using assms by (intro locationRule_skip) (auto simp: truthy_def)
  have b: "locationRule l m ?d u = u" for l m u
    by (intro locationRule_skip) (simp add: truthy_def)
  have c: "matchDonation p n t' d = matchDonation p n t' ?d" for p n t'
    by (simp add: matchDonation_def a b categoryRule_def urgencyRule_def recencyRule_def)
  have e: "matchRecipient d r' = matchRecipient ?d r'" for r'
    by (simp add: matchRecipient_def a b categoryRule_def urgencyRule_def)
  have f: "findMatchesForRecipient parse clock needs ds =
            findMatchesForRecipient parse clock needs (ds[k := ?d])"
    if "k < length ds \<and> ds ! k = d" for k
    using that c [of parse needs "clock k"]
    by (simp add: findMatchesForRecipient_def scoreDonations_update)
  have g: "fst (findRecipientsForDonation clock' w i prefs) = rank (map (matchRecipient ?d) prefs)"
    if "fst (fetchDonationById clock' w i) = Some d"
  proof -
    have "matchRecipient d = matchRecipient ?d" using e by blast
    with that show ?thesis by (simp add: findRecipientsForDonation_cases)
  qed
  from a [of loc maxD t] c [of parse needs now] e [of r] f g show ?thesis by blast
qed

theorem zero_coordinate_is_no_coordinate_witness:
  "latitude donation_equator = Some 0 \<and>
   location needs_located = Some (0, 121) \<and>
   findMatchesForRecipient (parse_at 0) (clock_at 0) needs_located [donation_equator] =
     [\<lparr>donationId = ''Z'', recipientId = ''u2'', score = 50,
       matchReason = [''Category match: disaster'', ''Recently listed donation'']\<rparr>]"
proof -
  have h: "latitude donation_equator = Some 0 \<or> longitude donation_equator = Some 0"
    by (simp add: eval_examples)
  have "findMatchesForRecipient (parse_at 0) (clock_at 0) needs_located [donation_equator] =
        findMatchesForRecipient (parse_at 0) (clock_at 0) needs_located
          ([donation_equator][0 := donation_equator\<lparr>latitude := None, longitude := None\<rparr>])"
    using zero_coordinate_is_no_coordinate [OF h, where ds = "[donation_equator]"
        and parse = "parse_at 0" and clock = "clock_at 0" and needs = needs_located]
    by simp
  then show ?thesis
    by (simp add: eval_match eval_examples)
qed

end
